theory Spec2Isabelle
  imports Main "HOL-Library.Char_ord" "HOL-Library.List_Lexorder" "HOL-Library.AList"
begin

section \<open>Python strings\<close>

text \<open>
  A Python \<open>str\<close> is modelled as a \<open>string\<close>: a list of characters, each standing
  for the code point \<open>of_char c\<close> (0 to 255). The string methods used by
  \<open>synq/core/migration.py\<close> and \<open>synq/core/database.py\<close> follow.
\<close>

definition py_isspace :: "char \<Rightarrow> bool" where
  \<comment> \<open>The code points below 256 that \<open>str.strip()\<close> removes: TAB to CR, FS to US and
      SPACE, NEL, NBSP.\<close>
  "py_isspace c =
     (let n = (of_char c :: nat)
      in (9 \<le> n \<and> n \<le> 13) \<or> (28 \<le> n \<and> n \<le> 32) \<or> n = 133 \<or> n = 160)"

definition py_lower_char :: "char \<Rightarrow> char" where
  \<comment> \<open>\<open>str.lower()\<close> on one code point: A-Z and the upper-case letters of Latin-1.\<close>
  "py_lower_char c =
     (let n = (of_char c :: nat)
      in if (65 \<le> n \<and> n \<le> 90) \<or> (192 \<le> n \<and> n \<le> 222 \<and> n \<noteq> 215)
         then char_of (n + 32) else c)"

definition py_lower :: "string \<Rightarrow> string" where
  "py_lower s = map py_lower_char s"

definition lstrip_with :: "(char \<Rightarrow> bool) \<Rightarrow> string \<Rightarrow> string" where
  "lstrip_with P s = dropWhile P s"

definition rstrip_with :: "(char \<Rightarrow> bool) \<Rightarrow> string \<Rightarrow> string" where
  "rstrip_with P s = rev (dropWhile P (rev s))"

definition strip_with :: "(char \<Rightarrow> bool) \<Rightarrow> string \<Rightarrow> string" where
  "strip_with P s = rstrip_with P (lstrip_with P s)"

definition py_strip :: "string \<Rightarrow> string" where
  \<comment> \<open>\<open>s.strip()\<close>\<close>
  "py_strip s = strip_with py_isspace s"

definition is_underscore :: "char \<Rightarrow> bool" where
  "is_underscore c = (c = CHR ''_'')"

definition py_startswith :: "string \<Rightarrow> string \<Rightarrow> bool" where
  \<comment> \<open>\<open>s.startswith(p)\<close>\<close>
  "py_startswith s p = (take (length p) s = p)"

fun py_split :: "char \<Rightarrow> string \<Rightarrow> string list" where
  \<comment> \<open>\<open>s.split(sep)\<close> for a one-character separator: never an empty list.\<close>
  "py_split sep [] = [[]]"
| "py_split sep (c # cs) =
     (if c = sep then [] # py_split sep cs
      else (case py_split sep cs of
              [] \<Rightarrow> [[c]]
            | p # ps \<Rightarrow> (c # p) # ps))"

fun py_join :: "string \<Rightarrow> string list \<Rightarrow> string" where
  \<comment> \<open>\<open>sep.join(parts)\<close>\<close>
  "py_join sep [] = []"
| "py_join sep [p] = p"
| "py_join sep (p # q # ps) = p @ sep @ py_join sep (q # ps)"

section \<open>Migration names\<close>

definition is_lower_alnum :: "char \<Rightarrow> bool" where
  \<comment> \<open>the class \<open>[a-z0-9]\<close>\<close>
  "is_lower_alnum c =
     (let n = (of_char c :: nat) in (97 \<le> n \<and> n \<le> 122) \<or> (48 \<le> n \<and> n \<le> 57))"

definition is_slug_char :: "char \<Rightarrow> bool" where
  \<comment> \<open>the class \<open>[a-z0-9_]\<close>\<close>
  "is_slug_char c = (is_lower_alnum c \<or> c = CHR ''_'')"

definition sub_problematic :: "string \<Rightarrow> string" where
  \<comment> \<open>\<open>re.sub(r"[^a-z0-9_]", "_", name)\<close>\<close>
  "sub_problematic s = map (\<lambda>c. if is_slug_char c then c else CHR ''_'') s"

fun sub_underscores :: "string \<Rightarrow> string" where
  \<comment> \<open>\<open>re.sub(r"_+", "_", name)\<close>\<close>
  "sub_underscores [] = []"
| "sub_underscores [c] = [c]"
| "sub_underscores (c # d # cs) =
     (if c = CHR ''_'' \<and> d = CHR ''_'' then sub_underscores (d # cs)
      else c # sub_underscores (d # cs))"

definition create_migration_name :: "string \<Rightarrow> string" where
  "create_migration_name description =
     (let name = py_strip (py_lower description);
          name = sub_problematic name;
          name = sub_underscores name;
          name = strip_with is_underscore name;
          name = (if length name > 50 then rstrip_with is_underscore (take 50 name) else name);
          name = (if name = [] then ''migration'' else name)
      in name)"

text \<open>
  The slug as the specification words it: lower-case, every run of characters outside
  \<open>[a-z0-9_]\<close> collapsed to one underscore, underscores trimmed at both ends, cut at
  50 characters, \<open>migration\<close> when nothing is left.
\<close>

function squeeze_runs :: "(char \<Rightarrow> bool) \<Rightarrow> string \<Rightarrow> string" where
  \<comment> \<open>every maximal run of characters satisfying \<open>P\<close> becomes one underscore\<close>
  "squeeze_runs P [] = []"
| "squeeze_runs P (c # cs) =
     (if P c then CHR ''_'' # squeeze_runs P (dropWhile P cs) else c # squeeze_runs P cs)"
  by pat_completeness auto
termination
  by (relation "measure (\<lambda>(P, s). length s)") (auto simp: length_dropWhile_le less_Suc_eq_le)

definition slug_as_specified :: "string \<Rightarrow> string" where
  "slug_as_specified description =
     (let s = squeeze_runs (\<lambda>c. \<not> is_slug_char c) (py_lower description);
          s = strip_with is_underscore s;
          s = take 50 s
      in if s = [] then ''migration'' else s)"

definition slug_of_words :: "string \<Rightarrow> string" where
  \<comment> \<open>as the code has it: underscores belong to the runs, and the cut leaves no
      underscore at the end\<close>
  "slug_of_words description =
     (let s = squeeze_runs (\<lambda>c. \<not> is_lower_alnum c) (py_lower description);
          s = strip_with is_underscore s;
          s = rstrip_with is_underscore (take 50 s)
      in if s = [] then ''migration'' else s)"


section \<open>Exceptions\<close>

text \<open>
  A raised exception is a value: the class that the source raises or catches, with the
  text that \<open>str(e)\<close> gives. A function that can raise returns \<open>py_exception + 'a\<close>.
\<close>

datatype py_exception =
    RuntimeError string
  | OSError string
  | ValueError string
  | AttributeError string
  | TypeError string
  | OtherException string

fun exception_message :: "py_exception \<Rightarrow> string" where
  "exception_message (RuntimeError m) = m"
| "exception_message (OSError m) = m"
| "exception_message (ValueError m) = m"
| "exception_message (AttributeError m) = m"
| "exception_message (TypeError m) = m"
| "exception_message (OtherException m) = m"

section \<open>The migration store\<close>

text \<open>
  \<open>migrations_path\<close> is a flat directory: its entries by name, in the order the operating
  system lists them. An entry is a text file with its content, or a directory.
\<close>

datatype file_node = RegularFile string | Directory

record migration_store =
  migrations_path :: string
  entries :: "(string \<times> file_node) list"

record migration_file =
  mf_number :: int
  mf_name :: string
  mf_filename :: string
  mf_filepath :: string
  mf_sql_content :: string

record pending_migration =
  filename :: string
  sql_content :: string

definition is_digit :: "char \<Rightarrow> bool" where
  "is_digit c = (let n = (of_char c :: nat) in 48 \<le> n \<and> n \<le> 57)"

definition digit_char :: "nat \<Rightarrow> char" where
  "digit_char d = ''0123456789'' ! d"

definition digit_value :: "char \<Rightarrow> nat" where
  "digit_value c = of_char c - 48"

fun decimal :: "nat \<Rightarrow> string" where
  "decimal n = (if n < 10 then [digit_char n] else decimal (n div 10) @ [digit_char (n mod 10)])"

declare decimal.simps [simp del]

definition zero_pad :: "nat \<Rightarrow> string \<Rightarrow> string" where
  "zero_pad w ds = replicate (w - length ds) CHR ''0'' @ ds"

definition format_04d :: "int \<Rightarrow> string" where
  \<comment> \<open>the format \<open>{migration_number:04d}\<close>: at least four characters, the sign first\<close>
  "format_04d n =
     (if n < 0 then CHR ''-'' # zero_pad 3 (decimal (nat (- n))) else zero_pad 4 (decimal (nat n)))"

definition path_join :: "string \<Rightarrow> string \<Rightarrow> string" where
  \<comment> \<open>\<open>self.migrations_path / filename\<close>, for a name without a path separator\<close>
  "path_join dir fname = dir @ ''/'' @ fname"

definition save_migration ::
  "migration_store \<Rightarrow> int \<Rightarrow> string \<Rightarrow> string \<Rightarrow> py_exception + (string \<times> migration_store)" where
  "save_migration store migration_number migration_name sql =
     (let fname = format_04d migration_number @ ''_'' @ migration_name @ ''.sql'';
          filepath = path_join (migrations_path store) fname
      in case map_of (entries store) fname of
           Some Directory \<Rightarrow> Inl (OSError (''Is a directory: '' @ filepath))
         | _ \<Rightarrow> Inr (filepath, store\<lparr>entries := AList.update fname (RegularFile sql) (entries store)\<rparr>))"

definition matches_artifact_name :: "string \<Rightarrow> bool" where
  \<comment> \<open>the pattern \<open>\<^verbatim>\<open>^\d{4}_[a-z0-9_]+\.sql$\<close>\<close>, on a name without a newline\<close>
  "matches_artifact_name f =
     (let slug = take (length f - 9) (drop 5 f)
      in 10 \<le> length f \<and> list_all is_digit (take 4 f) \<and> f ! 4 = CHR ''_''
         \<and> list_all is_slug_char slug \<and> drop (length f - 4) f = ''.sql'')"

fun valid_digits :: "string \<Rightarrow> bool" where
  \<comment> \<open>what \<open>int()\<close> accepts after the sign: digits, single underscores between them\<close>
  "valid_digits [] = False"
| "valid_digits [c] = is_digit c"
| "valid_digits (c # d # cs) =
     (is_digit c \<and> (if d = CHR ''_'' then valid_digits cs else valid_digits (d # cs)))"

definition digits_value :: "string \<Rightarrow> nat" where
  "digits_value s = foldl (\<lambda>acc c. 10 * acc + digit_value c) 0 (filter is_digit s)"

definition py_int :: "string \<Rightarrow> int option" where
  \<comment> \<open>\<open>int(s)\<close>; \<open>None\<close> is the \<open>ValueError\<close>\<close>
  "py_int s =
     (case py_strip s of
        [] \<Rightarrow> None
      | c # cs \<Rightarrow>
          if c = CHR ''-'' then (if valid_digits cs then Some (- int (digits_value cs)) else None)
          else if c = CHR ''+'' then (if valid_digits cs then Some (int (digits_value cs)) else None)
          else if valid_digits (c # cs) then Some (int (digits_value (c # cs))) else None)"

definition glob_sql :: "string \<Rightarrow> bool" where
  \<comment> \<open>the pattern \<open>*.sql\<close>\<close>
  "glob_sql fname = (4 \<le> length fname \<and> drop (length fname - 4) fname = ''.sql'')"

definition path_stem :: "string \<Rightarrow> string" where
  \<comment> \<open>\<open>filepath.stem\<close> of a name that ends in \<open>.sql\<close>: a name that is only the suffix
      keeps it\<close>
  "path_stem fname = (if length fname \<le> 4 then fname else take (length fname - 4) fname)"

definition split_once :: "char \<Rightarrow> string \<Rightarrow> string list" where
  \<comment> \<open>\<open>s.split(sep, 1)\<close>\<close>
  "split_once sep s =
     (let a = takeWhile (\<lambda>c. c \<noteq> sep) s; b = dropWhile (\<lambda>c. c \<noteq> sep) s
      in if b = [] then [a] else [a, tl b])"

definition read_migration_file :: "string \<Rightarrow> string \<Rightarrow> file_node \<Rightarrow> migration_file option" where
  \<comment> \<open>the body of the loop of \<open>get_all_migrations\<close>; \<open>None\<close> is \<open>continue\<close>\<close>
  "read_migration_file dir fname node =
     (let parts = split_once CHR ''_'' (path_stem fname)
      in if length parts \<noteq> 2 then None
         else (case py_int (parts ! 0) of
                 None \<Rightarrow> None
               | Some n \<Rightarrow>
                   (case node of
                      Directory \<Rightarrow> None
                    | RegularFile content \<Rightarrow>
                        Some \<lparr>mf_number = n, mf_name = parts ! 1, mf_filename = fname,
                              mf_filepath = path_join dir fname, mf_sql_content = content\<rparr>)))"

fun scan_files ::
  "string \<Rightarrow> (string \<times> file_node) list \<Rightarrow> migration_file list \<Rightarrow> migration_file list" where
  "scan_files dir [] migration_files = migration_files"
| "scan_files dir ((fname, node) # rest) migration_files =
     (case read_migration_file dir fname node of
        None \<Rightarrow> scan_files dir rest migration_files
      | Some m \<Rightarrow> scan_files dir rest (migration_files @ [m]))"

definition get_all_migrations :: "migration_store \<Rightarrow> migration_file list" where
  "get_all_migrations store =
     scan_files (migrations_path store)
       (sort_key fst (filter (\<lambda>e. glob_sql (fst e)) (entries store))) []"


text \<open>Two stores for examples, listed in an order that is not the sorted one.\<close>

definition example_store :: migration_store where
  "example_store =
     \<lparr>migrations_path = ''migrations'',
      entries = [(''0002_add_email.sql'', RegularFile ''ALTER TABLE users ADD COLUMN email TEXT;''),
                 (''notes.sql'', RegularFile ''-- scratch''),
                 (''0001_init.sql'', RegularFile ''CREATE TABLE users (id INTEGER);''),
                 (''README.md'', RegularFile ''migrations'')]\<rparr>"


section \<open>The database\<close>

text \<open>
  The database engine is an external collaborator. \<open>'db\<close> is the committed state of
  the database; an \<open>engine\<close> says how the database answers each request that
  \<open>DatabaseManager\<close> sends, either with an \<open>SQLAlchemyError\<close> (the text is what
  \<open>str(e)\<close> gives) or with the state after the request. Every theorem holds for every
  engine. A request that fails leaves the state it was sent to as it was.
\<close>

datatype sqlalchemy_error = SQLAlchemyError string

fun error_text :: "sqlalchemy_error \<Rightarrow> string" where
  "error_text (SQLAlchemyError m) = m"

record 'db engine =
  create_all :: "'db \<Rightarrow> sqlalchemy_error + 'db"
    \<comment> \<open>\<open>metadata.create_all(engine, tables=[migrations_table])\<close>\<close>
  connect :: "'db \<Rightarrow> sqlalchemy_error + unit"
    \<comment> \<open>\<open>engine.connect()\<close>\<close>
  select_limit_1 :: "'db \<Rightarrow> sqlalchemy_error + unit"
    \<comment> \<open>\<open>conn.execute(migrations_table.select().limit(1))\<close>\<close>
  select_filenames :: "'db \<Rightarrow> sqlalchemy_error + string list"
    \<comment> \<open>the filenames of \<open>migrations_table.select().order_by(filename)\<close>\<close>
  execute_text :: "string \<Rightarrow> 'db \<Rightarrow> sqlalchemy_error + 'db"
    \<comment> \<open>\<open>execute(text(statement))\<close>\<close>
  insert_migration :: "string \<Rightarrow> nat \<Rightarrow> 'db \<Rightarrow> sqlalchemy_error + 'db"
    \<comment> \<open>\<open>migrations_table.insert().values(filename=..., applied_at=...)\<close>\<close>
  commit :: "'db \<Rightarrow> sqlalchemy_error option"
    \<comment> \<open>the commit at the end of \<open>session.begin()\<close>; \<open>None\<close> when it succeeds\<close>

definition ensure_migrations_table :: "'db engine \<Rightarrow> 'db \<Rightarrow> (py_exception + unit) \<times> 'db" where
  \<comment> \<open>\<open>_ensure_migrations_table\<close>: the result and the database after\<close>
  "ensure_migrations_table eng db =
     (case create_all eng db of
        Inr db' \<Rightarrow> (Inr (), db')
      | Inl e \<Rightarrow>
          (case connect eng db of
             Inl _ \<Rightarrow>
               (Inl (RuntimeError (''Failed to create or access migrations table: '' @ error_text e)), db)
           | Inr _ \<Rightarrow>
               (case select_limit_1 eng db of
                  Inl _ \<Rightarrow>
                    (Inl (RuntimeError
                       (''Failed to create or access migrations table: '' @ error_text e)), db)
                | Inr _ \<Rightarrow> (Inr (), db))))"

definition get_applied_migrations :: "'db engine \<Rightarrow> 'db \<Rightarrow> py_exception + string list" where
  "get_applied_migrations eng db =
     (case select_filenames eng db of
        Inl e \<Rightarrow> Inl (RuntimeError (''Failed to query applied migrations: '' @ error_text e))
      | Inr rows \<Rightarrow> Inr rows)"

definition clean_statement :: "string \<Rightarrow> string" where
  \<comment> \<open>the comment lines and blank lines of one statement removed\<close>
  "clean_statement statement =
     py_strip (py_join [CHR 0x0A]
       (filter (\<lambda>line. line \<noteq> [] \<and> \<not> py_startswith line ''--'')
          (map py_strip (py_split (CHR 0x0A) statement))))"

fun execute_statements :: "'db engine \<Rightarrow> string list \<Rightarrow> 'db \<Rightarrow> sqlalchemy_error + 'db" where
  \<comment> \<open>the loop over \<open>statements\<close>, on the state that the open transaction sees\<close>
  "execute_statements eng [] w = Inr w"
| "execute_statements eng (statement # rest) w =
     (if statement = [] \<or> py_strip statement = [] then execute_statements eng rest w
      else (let clean = clean_statement statement
            in if clean = [] then execute_statements eng rest w
               else (case execute_text eng clean w of
                       Inl e \<Rightarrow> Inl e
                     | Inr w' \<Rightarrow> execute_statements eng rest w')))"

definition failed_to_apply :: "pending_migration \<Rightarrow> sqlalchemy_error \<Rightarrow> py_exception" where
  "failed_to_apply migration e =
     RuntimeError (''Failed to apply migration '' @ filename migration @ '': '' @ error_text e)"

definition apply_migration ::
  "'db engine \<Rightarrow> pending_migration \<Rightarrow> nat \<Rightarrow> 'db \<Rightarrow> (py_exception + unit) \<times> 'db" where
  \<comment> \<open>\<open>utcnow\<close> is the value of \<open>datetime.utcnow()\<close>. The transaction works on a copy of
      the committed state; the commit makes the copy the committed state, anything else
      leaves the committed state as it was (the rollback).\<close>
  "apply_migration eng migration utcnow db =
     (let statements = map py_strip (py_split CHR '';'' (sql_content migration))
      in case execute_statements eng statements db of
           Inl e \<Rightarrow> (Inl (failed_to_apply migration e), db)
         | Inr w \<Rightarrow>
             (case insert_migration eng (filename migration) utcnow w of
                Inl e \<Rightarrow> (Inl (failed_to_apply migration e), db)
              | Inr w' \<Rightarrow>
                  (case commit eng w' of
                     Some e \<Rightarrow> (Inl (failed_to_apply migration e), db)
                   | None \<Rightarrow> (Inr (), w'))))"

definition test_connection :: "'db engine \<Rightarrow> 'db \<Rightarrow> bool" where
  "test_connection eng db =
     (case connect eng db of
        Inl _ \<Rightarrow> False
      | Inr _ \<Rightarrow> (case execute_text eng ''SELECT 1'' db of Inl _ \<Rightarrow> False | Inr _ \<Rightarrow> True))"

fun collect_pending ::
  "migration_file list \<Rightarrow> string set \<Rightarrow> pending_migration list \<Rightarrow> pending_migration list" where
  "collect_pending [] applied_migrations pending = pending"
| "collect_pending (migration # rest) applied_migrations pending =
     (if mf_filename migration \<notin> applied_migrations
      then collect_pending rest applied_migrations
             (pending @ [\<lparr>filename = mf_filename migration,
                           sql_content = mf_sql_content migration\<rparr>])
      else collect_pending rest applied_migrations pending)"

definition get_pending_migrations ::
  "migration_store \<Rightarrow> 'db engine \<Rightarrow> 'db \<Rightarrow> py_exception + pending_migration list" where
  "get_pending_migrations store eng db =
     (let all_migrations = get_all_migrations store
      in case get_applied_migrations eng db of
           Inl e \<Rightarrow> Inl e
         | Inr applied \<Rightarrow> Inr (collect_pending all_migrations (set applied) []))"

text \<open>
  What the specification says \<open>apply\<close> does: the statements of the SQL text, and one
  transaction that runs requests in order and commits only when every one succeeded.
\<close>

datatype request = ExecuteText string | InsertMigration string nat

fun respond :: "'db engine \<Rightarrow> request \<Rightarrow> 'db \<Rightarrow> sqlalchemy_error + 'db" where
  "respond eng (ExecuteText statement) w = execute_text eng statement w"
| "respond eng (InsertMigration fname t) w = insert_migration eng fname t w"

fun run_requests :: "'db engine \<Rightarrow> request list \<Rightarrow> 'db \<Rightarrow> sqlalchemy_error + 'db" where
  "run_requests eng [] w = Inr w"
| "run_requests eng (r # rs) w =
     (case respond eng r w of Inl e \<Rightarrow> Inl e | Inr w' \<Rightarrow> run_requests eng rs w')"

definition in_one_transaction ::
  "'db engine \<Rightarrow> request list \<Rightarrow> 'db \<Rightarrow> (sqlalchemy_error + unit) \<times> 'db" where
  "in_one_transaction eng rs db =
     (case run_requests eng rs db of
        Inl e \<Rightarrow> (Inl e, db)
      | Inr w \<Rightarrow> (case commit eng w of Some e \<Rightarrow> (Inl e, db) | None \<Rightarrow> (Inr (), w)))"

definition statements_of :: "string \<Rightarrow> string list" where
  "statements_of sql =
     filter (\<lambda>statement. statement \<noteq> [])
       (map (\<lambda>piece. clean_statement (py_strip piece)) (py_split CHR '';'' sql))"

text \<open>
  A database for examples: it records the statements it ran and the rows of the ledger.
  It refuses the statement \<open>FAIL\<close>, and a second row for a filename.
\<close>

record recorded_db =
  statements_run :: "string list"
  ledger :: "(string \<times> nat) list"

definition recording_engine :: "recorded_db engine" where
  "recording_engine =
     \<lparr>create_all = (\<lambda>db. Inr db),
      connect = (\<lambda>db. Inr ()),
      select_limit_1 = (\<lambda>db. Inr ()),
      select_filenames = (\<lambda>db. Inr (sort (map fst (ledger db)))),
      execute_text = (\<lambda>statement db.
         if statement = ''FAIL'' then Inl (SQLAlchemyError ''syntax error'')
         else Inr (db\<lparr>statements_run := statements_run db @ [statement]\<rparr>)),
      insert_migration = (\<lambda>fname t db.
         if fname \<in> set (map fst (ledger db)) then Inl (SQLAlchemyError ''UNIQUE constraint failed'')
         else Inr (db\<lparr>ledger := ledger db @ [(fname, t)]\<rparr>)),
      commit = (\<lambda>db. None)\<rparr>"

definition unreachable_engine :: "recorded_db engine" where
  \<comment> \<open>a database that cannot be reached\<close>
  "unreachable_engine =
     \<lparr>create_all = (\<lambda>db. Inl (SQLAlchemyError ''connection refused'')),
      connect = (\<lambda>db. Inl (SQLAlchemyError ''connection refused'')),
      select_limit_1 = (\<lambda>db. Inl (SQLAlchemyError ''connection refused'')),
      select_filenames = (\<lambda>db. Inl (SQLAlchemyError ''connection refused'')),
      execute_text = (\<lambda>statement db. Inl (SQLAlchemyError ''connection refused'')),
      insert_migration = (\<lambda>fname t db. Inl (SQLAlchemyError ''connection refused'')),
      commit = (\<lambda>db. Some (SQLAlchemyError ''connection refused''))\<rparr>"

definition read_only_engine :: "recorded_db engine" where
  \<comment> \<open>a database whose user may read the ledger and change nothing\<close>
  "read_only_engine =
     \<lparr>create_all = (\<lambda>db. Inl (SQLAlchemyError ''permission denied'')),
      connect = (\<lambda>db. Inr ()),
      select_limit_1 = (\<lambda>db. Inr ()),
      select_filenames = (\<lambda>db. Inr (sort (map fst (ledger db)))),
      execute_text = (\<lambda>statement db.
         if statement = ''SELECT 1'' then Inr db else Inl (SQLAlchemyError ''permission denied'')),
      insert_migration = (\<lambda>fname t db. Inl (SQLAlchemyError ''permission denied'')),
      commit = (\<lambda>db. None)\<rparr>"

definition empty_db :: recorded_db where
  "empty_db = \<lparr>statements_run = [], ledger = []\<rparr>"

section \<open>SQL generation\<close>

text \<open>
  Modelled from the spec: the classes of \<open>synq/core/snapshot.py\<close> and
  \<open>synq/core/diff.py\<close> (the definitions of a column, an index, a foreign key and a
  table, \<open>OperationType\<close> and \<open>MigrationOperation\<close>), which \<open>migration.py\<close> imports;
  their fields are the ones the data model lists and \<open>_operation_to_sql\<close> reads.
  An operation holds its definitions untyped, as Python does, so a definition of the
  wrong class, or none, is a value too.
\<close>

record column_definition =
  col_name :: string
  col_type :: string
  col_nullable :: bool
  col_primary_key :: bool
  col_unique :: bool
  col_autoincrement :: bool
  col_default :: "string option"

record index_definition =
  idx_name :: string
  idx_columns :: "string list"
  idx_unique :: bool

record foreign_key_definition =
  fk_name :: "string option"
  fk_columns :: "string list"
  fk_referred_table :: string
  fk_referred_columns :: "string list"
  fk_ondelete :: "string option"
  fk_onupdate :: "string option"

record table_snapshot =
  tbl_name :: string
  tbl_columns :: "column_definition list"
  tbl_indexes :: "index_definition list"
  tbl_foreign_keys :: "foreign_key_definition list"

datatype definition_value =
    ColumnDef column_definition
  | IndexDef index_definition
  | ForeignKeyDef foreign_key_definition
  | TableDef table_snapshot

datatype operation_type =
    CREATE_TABLE | DROP_TABLE | ADD_COLUMN | DROP_COLUMN | ALTER_COLUMN
  | CREATE_INDEX | DROP_INDEX | ADD_FOREIGN_KEY | DROP_FOREIGN_KEY
  | OTHER_OPERATION string  \<comment> \<open>any other kind, with the text that printing it gives\<close>

record migration_operation =
  op_type :: operation_type
  table_name :: string
  object_name :: "string option"
  old_definition :: "definition_value option"
  new_definition :: "definition_value option"

text \<open>
  What the generator takes from outside the source files: the text of
  \<open>str(operation)\<close>, the name of a definition's class, and SQLAlchemy's rendering of
  \<open>CREATE TABLE\<close> for the table that \<open>_build_sqlalchemy_table\<close> builds (either can raise).
\<close>

record generator_env =
  show_operation :: "migration_operation \<Rightarrow> string"
  class_name :: "definition_value \<Rightarrow> string"
  compile_create_table :: "definition_value \<Rightarrow> py_exception + string"

definition truthy :: "string option \<Rightarrow> bool" where
  \<comment> \<open>\<open>if x:\<close> for an optional string\<close>
  "truthy x = (case x of None \<Rightarrow> False | Some s \<Rightarrow> s \<noteq> [])"

definition format_optional :: "string option \<Rightarrow> string" where
  \<comment> \<open>an optional string inside an f-string\<close>
  "format_optional x = (case x of None \<Rightarrow> ''None'' | Some s \<Rightarrow> s)"

definition no_attribute :: "generator_env \<Rightarrow> definition_value option \<Rightarrow> string \<Rightarrow> py_exception" where
  "no_attribute env d attr =
     AttributeError
       ([CHR 0x27] @ (case d of None \<Rightarrow> ''NoneType'' | Some v \<Rightarrow> class_name env v) @ [CHR 0x27]
        @ '' object has no attribute '' @ [CHR 0x27] @ attr @ [CHR 0x27])"

definition null_clause :: "bool \<Rightarrow> string" where
  "null_clause nullable = (if nullable then ''NULL'' else ''NOT NULL'')"

definition add_column_sql :: "string \<Rightarrow> column_definition \<Rightarrow> string" where
  "add_column_sql tbl col_def =
     (let parts = [''ADD COLUMN '' @ col_name col_def @ '' '' @ col_type col_def];
          parts = (if \<not> col_nullable col_def then parts @ [''NOT NULL''] else parts);
          parts = (if truthy (col_default col_def)
                   then parts @ [''DEFAULT '' @ format_optional (col_default col_def)] else parts);
          parts = (if col_unique col_def then parts @ [''UNIQUE''] else parts)
      in ''ALTER TABLE '' @ tbl @ '' '' @ py_join '' '' parts @ '';'')"

definition alter_column_comment ::
  "migration_operation \<Rightarrow> column_definition \<Rightarrow> column_definition \<Rightarrow> string" where
  "alter_column_comment operation old_col new_col =
     ''-- ALTER COLUMN '' @ table_name operation @ ''.'' @ format_optional (object_name operation)
       @ [CHR 0x0A]
     @ ''-- Note: Column alteration may require database-specific syntax'' @ [CHR 0x0A]
     @ ''-- Old: '' @ col_name old_col @ '' '' @ col_type old_col @ '' ''
       @ null_clause (col_nullable old_col) @ [CHR 0x0A]
     @ ''-- New: '' @ col_name new_col @ '' '' @ col_type new_col @ '' ''
       @ null_clause (col_nullable new_col)"

definition create_index_sql :: "string \<Rightarrow> index_definition \<Rightarrow> string" where
  "create_index_sql tbl idx_def =
     (let unique_clause = (if idx_unique idx_def then ''UNIQUE '' else []);
          columns = py_join '', '' (idx_columns idx_def)
      in ''CREATE '' @ unique_clause @ ''INDEX '' @ idx_name idx_def @ '' ON '' @ tbl
         @ '' ('' @ columns @ '');'')"

definition add_foreign_key_sql :: "string \<Rightarrow> foreign_key_definition \<Rightarrow> string" where
  "add_foreign_key_sql tbl fk_def =
     (let columns = py_join '', '' (fk_columns fk_def);
          ref_columns = py_join '', '' (fk_referred_columns fk_def);
          constraint_name =
            (if truthy (fk_name fk_def)
             then ''CONSTRAINT '' @ format_optional (fk_name fk_def) @ '' '' else []);
          fk_clause = constraint_name @ ''FOREIGN KEY ('' @ columns @ '') REFERENCES ''
            @ fk_referred_table fk_def @ '' ('' @ ref_columns @ '')'';
          fk_clause = (if truthy (fk_ondelete fk_def)
            then fk_clause @ '' ON DELETE '' @ format_optional (fk_ondelete fk_def) else fk_clause);
          fk_clause = (if truthy (fk_onupdate fk_def)
            then fk_clause @ '' ON UPDATE '' @ format_optional (fk_onupdate fk_def) else fk_clause)
      in ''ALTER TABLE '' @ tbl @ '' ADD '' @ fk_clause @ '';'')"

fun operation_to_sql_of ::
  "generator_env \<Rightarrow> migration_operation \<Rightarrow> operation_type \<Rightarrow> py_exception + string" where
  "operation_to_sql_of env operation CREATE_TABLE =
     (case new_definition operation of
        None \<Rightarrow> Inl (no_attribute env None ''columns'')
      | Some table_def \<Rightarrow>
          (case compile_create_table env table_def of
             Inl e \<Rightarrow> Inl e
           | Inr ddl \<Rightarrow> Inr (py_strip ddl @ '';'')))"
| "operation_to_sql_of env operation DROP_TABLE =
     Inr (''DROP TABLE '' @ table_name operation @ '';'')"
| "operation_to_sql_of env operation ADD_COLUMN =
     (case new_definition operation of
        Some (ColumnDef col_def) \<Rightarrow> Inr (add_column_sql (table_name operation) col_def)
      | d \<Rightarrow> Inl (no_attribute env d ''type''))"
| "operation_to_sql_of env operation DROP_COLUMN =
     Inr (''ALTER TABLE '' @ table_name operation @ '' DROP COLUMN ''
          @ format_optional (object_name operation) @ '';'')"
| "operation_to_sql_of env operation ALTER_COLUMN =
     (case old_definition operation of
        None \<Rightarrow> Inl (no_attribute env None ''name'')
      | Some (ColumnDef old_col) \<Rightarrow>
          (case new_definition operation of
             None \<Rightarrow> Inl (no_attribute env None ''name'')
           | Some (ColumnDef new_col) \<Rightarrow> Inr (alter_column_comment operation old_col new_col)
           | d \<Rightarrow> Inl (no_attribute env d ''type''))
      | d \<Rightarrow> Inl (no_attribute env d ''type''))"
| "operation_to_sql_of env operation CREATE_INDEX =
     (case new_definition operation of
        Some (IndexDef idx_def) \<Rightarrow> Inr (create_index_sql (table_name operation) idx_def)
      | Some (ColumnDef c) \<Rightarrow> Inl (no_attribute env (Some (ColumnDef c)) ''columns'')
      | d \<Rightarrow> Inl (no_attribute env d ''unique''))"
| "operation_to_sql_of env operation DROP_INDEX =
     Inr (''DROP INDEX '' @ format_optional (object_name operation) @ '';'')"
| "operation_to_sql_of env operation ADD_FOREIGN_KEY =
     (case new_definition operation of
        Some (ForeignKeyDef fk_def) \<Rightarrow> Inr (add_foreign_key_sql (table_name operation) fk_def)
      | Some (IndexDef i) \<Rightarrow> Inl (no_attribute env (Some (IndexDef i)) ''referred_columns'')
      | Some (TableDef t) \<Rightarrow>
          (case tbl_columns t of
             [] \<Rightarrow> Inl (no_attribute env (Some (TableDef t)) ''referred_columns'')
           | c # _ \<Rightarrow> Inl (TypeError (''sequence item 0: expected str instance, ''
                                      @ class_name env (ColumnDef c) @ '' found'')))
      | d \<Rightarrow> Inl (no_attribute env d ''columns''))"
| "operation_to_sql_of env operation DROP_FOREIGN_KEY =
     (if truthy (object_name operation)
      then Inr (''ALTER TABLE '' @ table_name operation @ '' DROP CONSTRAINT ''
                @ format_optional (object_name operation) @ '';'')
      else Inr (''-- DROP FOREIGN KEY on '' @ table_name operation
                @ '' (no constraint name available)''))"
| "operation_to_sql_of env operation (OTHER_OPERATION shown) =
     Inr (''-- Unsupported operation: '' @ shown)"

definition operation_to_sql :: "generator_env \<Rightarrow> migration_operation \<Rightarrow> py_exception + string" where
  \<comment> \<open>\<open>_operation_to_sql\<close>\<close>
  "operation_to_sql env operation = operation_to_sql_of env operation (op_type operation)"

fun generate_loop ::
  "generator_env \<Rightarrow> migration_operation list \<Rightarrow> string list \<Rightarrow> string list" where
  "generate_loop env [] sql_statements = sql_statements"
| "generate_loop env (operation # rest) sql_statements =
     (case operation_to_sql env operation of
        Inr sql \<Rightarrow>
          (if sql \<noteq> [] then
             generate_loop env rest
               (sql_statements @ [''-- '' @ show_operation env operation, sql, []])
           else generate_loop env rest sql_statements)
      | Inl e \<Rightarrow>
          generate_loop env rest
            (sql_statements
             @ [''-- WARNING: Could not generate SQL for '' @ show_operation env operation
                @ '': '' @ exception_message e, []]))"

definition generate_sql :: "generator_env \<Rightarrow> migration_operation list \<Rightarrow> string" where
  \<comment> \<open>the \<open>metadata\<close> argument is passed on and never read\<close>
  "generate_sql env operations =
     (if operations = [] then [] else py_join [CHR 0x0A] (generate_loop env operations []))"

definition is_comment :: "string \<Rightarrow> bool" where
  \<comment> \<open>every line of the text is an SQL comment\<close>
  "is_comment s = list_all (\<lambda>line. py_startswith line ''--'') (py_split (CHR 0x0A) s)"

definition example_env :: generator_env where
  "example_env =
     \<lparr>show_operation = (\<lambda>operation. ''operation on '' @ table_name operation),
      class_name = (\<lambda>d. ''Definition''),
      compile_create_table = (\<lambda>d. Inl (OtherException ''cannot compile''))\<rparr>"

section \<open>Migration names: the slug\<close>

lemma alnum_not_us: "is_lower_alnum c \<Longrightarrow> c \<noteq> CHR ''_''"
  by (auto simp: is_lower_alnum_def)

lemma sub_us_cons: "sub_underscores (CHR ''_'' # xs) = CHR ''_'' # sub_underscores (dropWhile is_underscore xs)"
  by (induction xs rule: sub_underscores.induct) (auto simp: is_underscore_def)

lemma sub_us_cons_other: "c \<noteq> CHR ''_'' \<Longrightarrow> sub_underscores (c # xs) = c # sub_underscores xs"
  by (cases xs) auto

lemma dropWhile_sub_problematic:
  "dropWhile is_underscore (sub_problematic cs) = sub_problematic (dropWhile (\<lambda>c. \<not> is_lower_alnum c) cs)"
  by (induction cs) (auto simp: sub_problematic_def is_underscore_def is_slug_char_def dest: alnum_not_us)

lemma sub_squeeze: "sub_underscores (sub_problematic s) = squeeze_runs (\<lambda>c. \<not> is_lower_alnum c) s"
proof (induction "\<lambda>c. \<not> is_lower_alnum c" s rule: squeeze_runs.induct)
  case 1 show ?case by (simp add: sub_problematic_def)
next
  case (2 c cs)
  show ?case
  proof (cases "is_lower_alnum c")
    case True
    then have "sub_problematic (c # cs) = c # sub_problematic cs"
      by (simp add: sub_problematic_def is_slug_char_def)
    with True 2 show ?thesis by (simp add: sub_us_cons_other alnum_not_us)
  next
    case False
    then have "sub_problematic (c # cs) = CHR ''_'' # sub_problematic cs"
      by (auto simp add: sub_problematic_def is_slug_char_def)
    with False 2 show ?thesis by (simp add: sub_us_cons dropWhile_sub_problematic)
  qed
qed

lemma lstrip_squeeze:
  assumes "P CHR ''_''"
  shows "lstrip_with is_underscore (squeeze_runs P s) = squeeze_runs P (dropWhile P s)"
proof (cases s)
  case Nil then show ?thesis by (simp add: lstrip_with_def)
next
  case (Cons c cs)
  show ?thesis
  proof (cases "P c")
    case False
    with assms have "c \<noteq> CHR ''_''" by auto
    with False Cons show ?thesis by (simp add: lstrip_with_def is_underscore_def)
  next
    case True
    define t where "t = dropWhile P cs"
    have "dropWhile is_underscore (squeeze_runs P t) = squeeze_runs P t"
    proof (cases t)
      case Nil then show ?thesis by simp
    next
      case (Cons d ds)
      then have "\<not> P d" using hd_dropWhile[of P cs] by (auto simp: t_def)
      with assms have "d \<noteq> CHR ''_''" by auto
      with Cons \<open>\<not> P d\<close> show ?thesis by (simp add: is_underscore_def)
    qed
    with True \<open>s = c # cs\<close> show ?thesis by (simp add: lstrip_with_def is_underscore_def t_def)
  qed
qed

lemma rstrip_with_Cons:
  "rstrip_with P (c # cs) = (if list_all P (c # cs) then [] else c # rstrip_with P cs)"
  by (auto simp: rstrip_with_def dropWhile_append list_all_iff)

lemma rstrip_with_Nil: "rstrip_with P [] = []"
  by (simp add: rstrip_with_def)


lemma dropWhile_all: "\<forall>x\<in>set xs. P x \<Longrightarrow> dropWhile P xs = []"
  by simp

lemma list_all_dropWhile: "list_all P (dropWhile P cs) \<longleftrightarrow> list_all P cs"
  by (induction cs) auto

lemma list_all_squeeze:
  assumes "P CHR ''_''"
  shows "list_all is_underscore (squeeze_runs P s) \<longleftrightarrow> list_all P s"
  using assms
proof (induction P s rule: squeeze_runs.induct)
  case (1 P) show ?case by simp
next
  case (2 P c cs)
  show ?case
  proof (cases "P c")
    case True
    with 2 show ?thesis by (simp add: is_underscore_def list_all_dropWhile)
  next
    case False
    with 2 have "c \<noteq> CHR ''_''" by auto
    with False 2 show ?thesis by (simp add: is_underscore_def)
  qed
qed

lemma dropWhile_rstrip_commute:
  assumes "\<And>c. Q c \<Longrightarrow> P c"
  shows "dropWhile P (rstrip_with Q u) = rstrip_with Q (dropWhile P u)"
proof (induction u)
  case Nil show ?case by (simp add: rstrip_with_Nil)
next
  case (Cons c cs)
  show ?case
  proof (cases "list_all Q (c # cs)")
    case True
    then have "list_all P (c # cs)" using assms by (auto simp: list_all_iff)
    then have b: "dropWhile P (c # cs) = []" by (simp add: list_all_iff)
    from True have a: "rstrip_with Q (c # cs) = []" by (simp add: rstrip_with_Cons)
    show ?thesis by (simp only: a b) (simp add: rstrip_with_Nil)
  next
    case False
    then have r: "rstrip_with Q (c # cs) = c # rstrip_with Q cs" by (simp add: rstrip_with_Cons)
    show ?thesis
    proof (cases "P c")
      case True with Cons r show ?thesis by simp
    next
      case False with r show ?thesis by simp
    qed
  qed
qed

lemma rstrip_squeeze:
  assumes us: "P CHR ''_''"
  shows "rstrip_with is_underscore (squeeze_runs P s) = squeeze_runs P (rstrip_with P s)"
  using us
proof (induction P s rule: squeeze_runs.induct)
  case (1 P) show ?case by (simp add: rstrip_with_Nil)
next
  case (2 P c cs)
  show ?case
  proof (cases "P c")
    case False
    with 2 have "c \<noteq> CHR ''_''" by auto
    with False 2 show ?thesis by (simp add: rstrip_with_Cons is_underscore_def)
  next
    case True
    show ?thesis
    proof (cases "list_all P cs")
      case all: True
      then have "dropWhile P cs = []" by (simp add: list_all_iff)
      with True all show ?thesis
        by (simp add: rstrip_with_Cons rstrip_with_Nil is_underscore_def list_all_iff dropWhile_all)
    next
      case notall: False
      then have "\<not> list_all is_underscore (squeeze_runs P (dropWhile P cs))"
        using 2 by (simp add: list_all_squeeze list_all_dropWhile)
      moreover have "dropWhile P (rstrip_with P cs) = rstrip_with P (dropWhile P cs)"
        by (rule dropWhile_rstrip_commute) simp
      moreover have "is_underscore CHR ''_''" by (simp add: is_underscore_def)
      ultimately show ?thesis using True notall 2
        by (simp add: rstrip_with_Cons)
    qed
  qed
qed

lemma strip_squeeze:
  "P CHR ''_'' \<Longrightarrow> strip_with is_underscore (squeeze_runs P s) = squeeze_runs P (strip_with P s)"
  by (simp add: strip_with_def lstrip_squeeze rstrip_squeeze) (simp add: lstrip_with_def)

lemma dropWhile_dropWhile_sub:
  "(\<And>c. Q c \<Longrightarrow> P c) \<Longrightarrow> dropWhile P (dropWhile Q t) = dropWhile P t"
  by (induction t) auto

lemma rstrip_rstrip_sub:
  "(\<And>c. Q c \<Longrightarrow> P c) \<Longrightarrow> rstrip_with P (rstrip_with Q t) = rstrip_with P t"
  by (simp add: rstrip_with_def dropWhile_dropWhile_sub)

lemma strip_strip_sub:
  assumes "\<And>c. Q c \<Longrightarrow> P c"
  shows "strip_with P (strip_with Q t) = strip_with P t"
proof -
  have "dropWhile P (rstrip_with Q (dropWhile Q t)) = rstrip_with Q (dropWhile P (dropWhile Q t))"
    by (rule dropWhile_rstrip_commute) (rule assms)
  then show ?thesis
    using assms by (simp add: strip_with_def lstrip_with_def rstrip_rstrip_sub dropWhile_dropWhile_sub)
qed

lemma space_not_alnum: "py_isspace c \<Longrightarrow> \<not> is_lower_alnum c"
  by (auto simp: py_isspace_def is_lower_alnum_def Let_def)

lemma name_before_cut:
  "strip_with is_underscore (sub_underscores (sub_problematic (py_strip s)))
   = strip_with is_underscore (squeeze_runs (\<lambda>c. \<not> is_lower_alnum c) s)"
proof -
  let ?N = "\<lambda>c. \<not> is_lower_alnum c"
  have us: "?N CHR ''_''" by (simp add: is_lower_alnum_def)
  have "strip_with ?N (strip_with py_isspace s) = strip_with ?N s"
    by (rule strip_strip_sub) (rule space_not_alnum)
  then show ?thesis
    using us by (simp add: sub_squeeze strip_squeeze py_strip_def)
qed

lemma rstrip_strip: "rstrip_with P (strip_with P s) = strip_with P s"
  by (simp add: strip_with_def rstrip_rstrip_sub)

lemma cut_if:
  "(if length (strip_with P x) > 50 then rstrip_with P (take 50 (strip_with P x)) else strip_with P x)
   = rstrip_with P (take 50 (strip_with P x))"
  by (simp add: rstrip_strip)


lemma create_migration_name_slug_of_words: "create_migration_name d = slug_of_words d"
  unfolding create_migration_name_def slug_of_words_def Let_def name_before_cut cut_if ..

lemma set_sub_underscores: "set (sub_underscores xs) \<subseteq> set xs"
  by (induction xs rule: sub_underscores.induct) auto

lemma set_rstrip_with: "set (rstrip_with P xs) \<subseteq> set xs"
  using set_dropWhileD[of _ P "rev xs"] by (auto simp: rstrip_with_def)

lemma set_strip_with: "set (strip_with P xs) \<subseteq> set xs"
  using set_rstrip_with[of P "dropWhile P xs"] set_dropWhileD[of _ P xs]
  by (auto simp: strip_with_def lstrip_with_def)

lemma slug_chars_sub_problematic: "set (sub_problematic s) \<subseteq> Collect is_slug_char"
  by (auto simp: sub_problematic_def is_slug_char_def)

lemma slug_chars_migration: "set ''migration'' \<subseteq> Collect is_slug_char"
  by (simp add: is_slug_char_def is_lower_alnum_def)

lemma create_migration_name_chars: "list_all is_slug_char (create_migration_name d)"
proof -
  let ?a = "sub_problematic (py_strip (py_lower d))"
  let ?b = "strip_with is_underscore (sub_underscores ?a)"
  have b: "set ?b \<subseteq> Collect is_slug_char"
    using set_strip_with[of is_underscore "sub_underscores ?a"] set_sub_underscores[of ?a]
      slug_chars_sub_problematic[of "py_strip (py_lower d)"] by blast
  have c: "set (rstrip_with is_underscore (take 50 ?b)) \<subseteq> Collect is_slug_char"
    using set_rstrip_with[of is_underscore "take 50 ?b"] set_take_subset[of 50 ?b] b by blast
  show ?thesis
    unfolding create_migration_name_def Let_def list_all_iff
    using b c slug_chars_migration by (auto split: if_splits)
qed

lemma create_migration_name_nonempty: "create_migration_name d \<noteq> []"
  by (simp add: create_migration_name_def Let_def)

lemma length_rstrip_with: "length (rstrip_with P xs) \<le> length xs"
  by (simp add: rstrip_with_def length_dropWhile_le[of P "rev xs", simplified])

lemma create_migration_name_length: "length (create_migration_name d) \<le> 50"
proof -
  have "length (rstrip_with is_underscore (take 50 xs)) \<le> 50" for xs
    using length_rstrip_with[of is_underscore "take 50 xs"] by simp
  then show ?thesis
    by (auto simp: create_migration_name_def Let_def)
qed

lemma is_digit_digit_char: "d < 10 \<Longrightarrow> is_digit (digit_char d)"
proof -
  assume "d < 10"
  then have "d \<in> {0, 1, 2, 3, 4, 5, 6, 7, 8, 9}"
    by auto
  then show ?thesis
    by (auto simp: is_digit_def digit_char_def)
qed

lemma decimal_digits: "list_all is_digit (decimal n)"
proof (induction n rule: decimal.induct)
  case (1 n)
  show ?case
  proof (cases "n < 10")
    case True then show ?thesis by (subst decimal.simps) (simp add: is_digit_digit_char)
  next
    case False
    with 1 show ?thesis by (subst decimal.simps) (simp add: is_digit_digit_char)
  qed
qed

lemma decimal_length: "n < 10 ^ k \<Longrightarrow> 0 < k \<Longrightarrow> length (decimal n) \<le> k"
proof (induction n arbitrary: k rule: decimal.induct)
  case (1 n)
  show ?case
  proof (cases "n < 10")
    case True with 1 show ?thesis by (subst decimal.simps) simp
  next
    case False
    obtain j where j: "k = Suc j" using 1(3) by (cases k) auto
    with False 1(2) have "0 < j" by (cases j) auto
    moreover from 1(2) j have "n div 10 < 10 ^ j" by (simp add: less_mult_imp_div_less mult.commute)
    ultimately have "length (decimal (n div 10)) \<le> j" using 1(1)[OF False] by simp
    with False j show ?thesis by (subst decimal.simps) simp
  qed
qed

lemma decimal_nonempty: "decimal n \<noteq> []"
  by (subst decimal.simps) simp

lemma format_04d_four:
  assumes "0 \<le> n" "n \<le> 9999"
  shows "length (format_04d n) = 4 \<and> list_all is_digit (format_04d n)"
proof -
  have "nat n < 10 ^ 4" using assms by simp
  then have "length (decimal (nat n)) \<le> 4" by (rule decimal_length) simp
  moreover have "is_digit CHR ''0''" by (simp add: is_digit_def)
  ultimately show ?thesis using assms decimal_digits[of "nat n"]
    by (auto simp add: format_04d_def zero_pad_def list_all_iff)
qed

lemma artifact_nameI:
  assumes "length ds = 4" "list_all is_digit ds" "slug \<noteq> []" "list_all is_slug_char slug"
  shows "matches_artifact_name (ds @ ''_'' @ slug @ ''.sql'')"
proof -
  from assms(3) have "Suc 0 \<le> length slug" by (cases slug) auto
  with assms show ?thesis by (auto simp: matches_artifact_name_def Let_def nth_append)
qed

section \<open>Migration names: the file name\<close>

lemma format_04d_10000: "format_04d 10000 = ''10000''"
  by (simp add: format_04d_def zero_pad_def decimal.simps digit_char_def)

lemma format_04d_2: "format_04d 2 = ''0002''"
  by (simp add: format_04d_def zero_pad_def decimal.simps digit_char_def eval_nat_numeral)

lemma slug_init: "create_migration_name ''init'' = ''init''"
  by code_simp

lemma slug_add_email_column: "create_migration_name ''Add Email Column!!'' = ''add_email_column''"
  by code_simp

text \<open>
  The slug as the specification words it leaves a run of underscores alone, since an
  underscore belongs to \<open>[a-z0-9_]\<close>; \<open>create_migration_name\<close> collapses it
  (\<open>re.sub(r"_+", "_", name)\<close>).
\<close>

theorem create_migration_name_collapses_underscores_too:
  "create_migration_name ''a__b'' = ''a_b'' \<and> slug_as_specified ''a__b'' = ''a__b''
   \<and> create_migration_name ''a__b'' \<noteq> slug_as_specified ''a__b''"
  by code_simp

text \<open>
  Claim C6, as amended. For every description, \<open>create_migration_name\<close> returns the
  description lower-cased, with every maximal run of characters outside \<open>[a-z0-9]\<close>
  (underscores included) collapsed to one underscore, the underscores at both ends
  trimmed, cut at 50 characters with the underscore that the cut may leave at the end
  removed, and \<open>migration\<close> when nothing is left. The result is never empty, has at most
  50 characters, all in \<open>[a-z0-9_]\<close>. The description \<open>Add Email Column!!\<close> gives
  \<open>add_email_column\<close>.
\<close>

theorem create_migration_name_slug:
  "create_migration_name description = slug_of_words description
   \<and> list_all is_slug_char (create_migration_name description)
   \<and> create_migration_name description \<noteq> []
   \<and> length (create_migration_name description) \<le> 50
   \<and> create_migration_name ''Add Email Column!!'' = ''add_email_column''"
  using create_migration_name_slug_of_words create_migration_name_chars
    create_migration_name_nonempty create_migration_name_length slug_add_email_column
  by blast

text \<open>
  The format \<open>04d\<close> pads to at least four digits and cuts nothing: migration number
  10000 is saved under a name with five digits, which the pattern of an artifact name
  does not match.
\<close>

theorem save_migration_five_digits:
  "save_migration \<lparr>migrations_path = ''migrations'', entries = []\<rparr> 10000
       (create_migration_name ''init'') ''SELECT 1;''
     = Inr (''migrations/10000_init.sql'',
            \<lparr>migrations_path = ''migrations'',
             entries = [(''10000_init.sql'', RegularFile ''SELECT 1;'')]\<rparr>)
   \<and> \<not> matches_artifact_name ''10000_init.sql''"
  by (simp add: save_migration_def slug_init format_04d_10000 path_join_def Let_def
      matches_artifact_name_def is_digit_def)

text \<open>
  Claim C7, as amended. For every migration number from 1 to 9999 and every slug that
  \<open>create_migration_name\<close> produces, \<open>save_migration\<close> writes the SQL under the name made
  of the number as four zero-padded digits, an underscore, the slug and \<open>.sql\<close>; the name
  matches \<open>\<^verbatim>\<open>^\d{4}_[a-z0-9_]+\.sql$\<close>\<close>. Nothing is written only when a directory has
  that name.
\<close>

theorem save_migration_filename:
  assumes "1 \<le> migration_number" and "migration_number \<le> 9999"
  shows "\<exists>fname. fname = format_04d migration_number @ ''_'' @ create_migration_name description @ ''.sql''
     \<and> length (format_04d migration_number) = 4
     \<and> matches_artifact_name fname
     \<and> (case save_migration store migration_number (create_migration_name description) sql of
          Inl e \<Rightarrow> map_of (entries store) fname = Some Directory
        | Inr (filepath, store') \<Rightarrow>
            filepath = path_join (migrations_path store) fname
            \<and> map_of (entries store') fname = Some (RegularFile sql))"
proof -
  let ?slug = "create_migration_name description"
  let ?f = "format_04d migration_number @ ''_'' @ ?slug @ ''.sql''"
  from assms have four: "length (format_04d migration_number) = 4 \<and> list_all is_digit (format_04d migration_number)"
    by (intro format_04d_four) simp_all
  then have m: "matches_artifact_name ?f"
    using create_migration_name_chars create_migration_name_nonempty by (intro artifact_nameI) simp_all
  have "case save_migration store migration_number ?slug sql of
          Inl e \<Rightarrow> map_of (entries store) ?f = Some Directory
        | Inr (filepath, store') \<Rightarrow>
            filepath = path_join (migrations_path store) ?f
            \<and> map_of (entries store') ?f = Some (RegularFile sql)"
    by (simp add: save_migration_def Let_def update_conv' split: option.splits file_node.splits)
  with four m show ?thesis by blast
qed

theorem save_migration_filename_witness:
  "(1::int) \<le> 2 \<and> (2::int) \<le> 9999
   \<and> save_migration \<lparr>migrations_path = ''migrations'', entries = []\<rparr> 2
        (create_migration_name ''Add Email Column!!'') ''SELECT 1;''
      = Inr (''migrations/0002_add_email_column.sql'',
             \<lparr>migrations_path = ''migrations'',
              entries = [(''0002_add_email_column.sql'', RegularFile ''SELECT 1;'')]\<rparr>)
   \<and> matches_artifact_name ''0002_add_email_column.sql''"
proof -
  have h1: "(1::int) \<le> 2" and h2: "(2::int) \<le> 9999"
    by simp_all
  have s: "save_migration \<lparr>migrations_path = ''migrations'', entries = []\<rparr> 2
        (create_migration_name ''Add Email Column!!'') ''SELECT 1;''
      = Inr (''migrations/0002_add_email_column.sql'',
             \<lparr>migrations_path = ''migrations'',
              entries = [(''0002_add_email_column.sql'', RegularFile ''SELECT 1;'')]\<rparr>)"
    by (simp add: save_migration_def slug_add_email_column format_04d_2 path_join_def Let_def)
  from save_migration_filename[OF h1 h2, of "''Add Email Column!!''"]
  have "matches_artifact_name (format_04d 2 @ ''_'' @ create_migration_name ''Add Email Column!!'' @ ''.sql'')"
    by blast
  then have "matches_artifact_name ''0002_add_email_column.sql''"
    by (simp add: slug_add_email_column format_04d_2)
  with h1 h2 s show ?thesis
    by blast
qed

section \<open>Enumerating the store\<close>


























lemmas store_eval = get_all_migrations_def glob_sql_def read_migration_file_def path_stem_def
      split_once_def py_int_def py_strip_def strip_with_def lstrip_with_def rstrip_with_def
      py_isspace_def is_digit_def digits_value_def digit_value_def path_join_def Let_def


lemma example_store_files:
  "get_all_migrations example_store =
   [\<lparr>mf_number = 1, mf_name = ''init'', mf_filename = ''0001_init.sql'',
      mf_filepath = ''migrations/0001_init.sql'',
      mf_sql_content = ''CREATE TABLE users (id INTEGER);''\<rparr>,
    \<lparr>mf_number = 2, mf_name = ''add_email'', mf_filename = ''0002_add_email.sql'',
      mf_filepath = ''migrations/0002_add_email.sql'',
      mf_sql_content = ''ALTER TABLE users ADD COLUMN email TEXT;''\<rparr>]"
  by (simp add: example_store_def store_eval)







lemma collect_pending_append:
  "collect_pending ms applied pending =
     pending @ map (\<lambda>m. \<lparr>filename = mf_filename m, sql_content = mf_sql_content m\<rparr>)
                 (filter (\<lambda>m. mf_filename m \<notin> applied) ms)"
  by (induction ms arbitrary: pending) auto

lemma example_pending:
  "get_pending_migrations example_store recording_engine
       \<lparr>statements_run = [], ledger = [(''0001_init.sql'', 0)]\<rparr>
     = Inr [\<lparr>filename = ''0002_add_email.sql'',
             sql_content = ''ALTER TABLE users ADD COLUMN email TEXT;''\<rparr>]"
  by (simp add: get_pending_migrations_def get_applied_migrations_def recording_engine_def
      example_store_files)

text \<open>
  Claim C4. \<open>get_pending_migrations\<close> returns exactly the stored migrations whose file
  names are not among the applied ones, in the order of the store's enumeration (when
  the ledger cannot be read, the error of \<open>get_applied_migrations\<close> is raised). With
  \<open>0001_init.sql\<close> and \<open>0002_add_email.sql\<close> stored and \<open>0001_init.sql\<close> in the ledger, it
  returns \<open>0002_add_email.sql\<close> alone.
\<close>

theorem get_pending_migrations_filter:
  "get_pending_migrations store eng db =
     (case get_applied_migrations eng db of
        Inl e \<Rightarrow> Inl e
      | Inr applied \<Rightarrow>
          Inr (map (\<lambda>m. \<lparr>filename = mf_filename m, sql_content = mf_sql_content m\<rparr>)
                 (filter (\<lambda>m. mf_filename m \<notin> set applied) (get_all_migrations store))))
   \<and> map mf_filename (get_all_migrations example_store) = [''0001_init.sql'', ''0002_add_email.sql'']
   \<and> get_applied_migrations recording_engine \<lparr>statements_run = [], ledger = [(''0001_init.sql'', 0)]\<rparr>
       = Inr [''0001_init.sql'']
   \<and> get_pending_migrations example_store recording_engine
         \<lparr>statements_run = [], ledger = [(''0001_init.sql'', 0)]\<rparr>
       = Inr [\<lparr>filename = ''0002_add_email.sql'',
               sql_content = ''ALTER TABLE users ADD COLUMN email TEXT;''\<rparr>]"
proof -
  have "get_applied_migrations recording_engine \<lparr>statements_run = [], ledger = [(''0001_init.sql'', 0)]\<rparr>
       = Inr [''0001_init.sql'']"
    by (simp add: get_applied_migrations_def recording_engine_def)
  moreover have "map mf_filename (get_all_migrations example_store)
      = [''0001_init.sql'', ''0002_add_email.sql'']"
    by (simp add: example_store_files)
  ultimately show ?thesis
    using example_pending
    by (simp add: get_pending_migrations_def collect_pending_append split: sum.splits)
qed

section \<open>Applying a migration\<close>

lemma py_strip_idem: "py_strip (py_strip s) = py_strip s"
  unfolding py_strip_def by (rule strip_strip_sub)

lemma clean_statement_Nil: "clean_statement [] = []"
  by (simp add: clean_statement_def py_strip_def strip_with_def lstrip_with_def rstrip_with_def)

lemma execute_statements_requests:
  "execute_statements eng (map py_strip ps) w =
     run_requests eng
       (map ExecuteText
          (filter (\<lambda>statement. statement \<noteq> []) (map (\<lambda>piece. clean_statement (py_strip piece)) ps))) w"
proof (induction ps arbitrary: w)
  case Nil show ?case by simp
next
  case (Cons p ps)
  show ?case
  proof (cases "py_strip p = []")
    case True
    with Cons show ?thesis by (simp add: clean_statement_Nil)
  next
    case False
    with Cons show ?thesis
      by (simp add: py_strip_idem Let_def split: sum.splits)
  qed
qed

lemma run_requests_append:
  "run_requests eng (rs @ rs') w =
     (case run_requests eng rs w of Inl e \<Rightarrow> Inl e | Inr w' \<Rightarrow> run_requests eng rs' w')"
  by (induction rs arbitrary: w) (auto split: sum.splits)

lemma apply_migration_as_transaction:
  "apply_migration eng migration utcnow db =
     (case in_one_transaction eng
             (map ExecuteText (statements_of (sql_content migration))
              @ [InsertMigration (filename migration) utcnow]) db of
        (Inl e, db') \<Rightarrow> (Inl (failed_to_apply migration e), db')
      | (Inr u, db') \<Rightarrow> (Inr (), db'))"
  by (simp add: apply_migration_def in_one_transaction_def execute_statements_requests
      statements_of_def run_requests_append Let_def split: sum.splits option.splits)


end
